theory Spec2Isabelle
  imports Complex_Main "HOL-Library.Multiset" "HOL-Library.AList"
begin

section \<open>JavaScript values\<close>

text \<open>
  The task manager is written in JavaScript, so a record is an object whose fields may hold
  anything or be missing. The model keeps that: a field value is a primitive (\<open>undefined\<close>,
  \<open>null\<close>, a boolean or a string), a value is a primitive, a function or an object with
  primitive fields, and an argument is a value or an array of values. Numbers are IEEE
  doubles and are not part of the universe of field values; no field of a task record is
  numeric. Strings are lists of code units below 256. An object is an association list in
  insertion order (the engine's reordering of integer-like keys is not modelled).
\<close>

datatype prim = Undefined | Null | Bool bool | Str string

type_synonym obj = "(string \<times> prim) list"

datatype jsval = Prim prim | Fn | Object obj

datatype jsarg = Val jsval | Array "jsval list"

datatype exn = TypeError | Error string

text \<open>\<open>!x\<close> is true for \<open>undefined\<close>, \<open>null\<close>, \<open>false\<close> and the empty string.\<close>

fun truthy :: "prim \<Rightarrow> bool" where
  "truthy Undefined = False"
| "truthy Null = False"
| "truthy (Bool b) = b"
| "truthy (Str s) = (s \<noteq> [])"

fun truthy_val :: "jsval \<Rightarrow> bool" where
  "truthy_val (Prim p) = truthy p"
| "truthy_val Fn = True"
| "truthy_val (Object fs) = True"

fun typeof :: "prim \<Rightarrow> string" where
  "typeof Undefined = ''undefined''"
| "typeof Null = ''object''"
| "typeof (Bool b) = ''boolean''"
| "typeof (Str s) = ''string''"

text \<open>
  \<open>v.k\<close> for one of the field names of a task (\<open>id\<close>, \<open>title\<close>, \<open>description\<close>,
  \<open>priority\<close>, \<open>completed\<close>, \<open>createdAt\<close>): a boolean, a string and a function have no such
  property, an object has it when the field is there. \<open>get\<close> adds the TypeError that
  reading a property of \<open>undefined\<close> or \<open>null\<close> throws.
\<close>

fun getprop :: "jsval \<Rightarrow> string \<Rightarrow> prim" where
  "getprop (Object fs) k = (case map_of fs k of None \<Rightarrow> Undefined | Some v \<Rightarrow> v)"
| "getprop v k = Undefined"

fun get :: "jsval \<Rightarrow> string \<Rightarrow> exn + prim" where
  "get (Prim Undefined) k = Inl TypeError"
| "get (Prim Null) k = Inl TypeError"
| "get v k = Inr (getprop v k)"

subsection \<open>Strings\<close>

text \<open>\<open>String.prototype.trim\<close> strips white space and line terminators at both ends.\<close>

definition is_space :: "char \<Rightarrow> bool" where
  "is_space c = ((of_char c :: nat) \<in> {9, 10, 11, 12, 13, 32, 160})"

definition trim :: "string \<Rightarrow> string" where
  "trim s = rev (dropWhile is_space (rev (dropWhile is_space s)))"

definition lower_char :: "char \<Rightarrow> char" where
  "lower_char c =
     (let n = (of_char c :: nat)
      in if (65 \<le> n \<and> n \<le> 90) \<or> (192 \<le> n \<and> n \<le> 222 \<and> n \<noteq> 215)
         then char_of (n + 32) else c)"

definition toLowerCase :: "string \<Rightarrow> string" where
  "toLowerCase s = map lower_char s"

fun starts_with :: "string \<Rightarrow> string \<Rightarrow> bool" where
  "starts_with s [] = True"
| "starts_with [] (c # t) = False"
| "starts_with (d # s) (c # t) = (d = c \<and> starts_with s t)"

fun str_includes :: "string \<Rightarrow> string \<Rightarrow> bool" where
  "str_includes [] t = (t = [])"
| "str_includes (d # s) t = (starts_with (d # s) t \<or> str_includes s t)"

text \<open>\<open>xs.join(sep)\<close>\<close>

fun join :: "string \<Rightarrow> string list \<Rightarrow> string" where
  "join sep [] = []"
| "join sep [x] = x"
| "join sep (x # y # ys) = x @ sep @ join sep (y # ys)"

text \<open>\<open>p.length > n\<close>: only a string has a length; \<open>undefined > n\<close> is false.\<close>

fun length_gt :: "prim \<Rightarrow> nat \<Rightarrow> bool" where
  "length_gt (Str s) n = (n < length s)"
| "length_gt p n = False"

subsection \<open>Dates\<close>

text \<open>
  \<open>new Date(x)\<close> as a time value in milliseconds, \<open>None\<close> for an invalid date (NaN).
  Parsing a string is the engine's \<open>Date.parse\<close>, a parameter of the model.
\<close>

type_synonym date_parse = "string \<Rightarrow> int option"

fun newDate :: "date_parse \<Rightarrow> prim \<Rightarrow> int option" where
  "newDate dp Undefined = None"
| "newDate dp Null = Some 0"
| "newDate dp (Bool b) = Some (if b then 1 else 0)"
| "newDate dp (Str s) = dp s"

section \<open>Validator (task-utils.js)\<close>

record validation =
  isValid :: bool
  errors :: "string list"

definition push_if :: "bool \<Rightarrow> string \<Rightarrow> string list \<Rightarrow> string list" where
  "push_if c msg errs = (if c then errs @ [msg] else errs)"

definition title_required :: string where
  "title_required = ''Title is required and must be a non-empty string''"

definition title_too_long :: string where
  "title_too_long = ''Title must be 100 characters or less''"

definition description_not_string :: string where
  "description_not_string = ''Description must be a string''"

definition description_too_long :: string where
  "description_too_long = ''Description must be 500 characters or less''"

definition priority_invalid :: string where
  "priority_invalid = ''Priority must be High, Medium, or Low''"

definition completed_not_boolean :: string where
  "completed_not_boolean = ''Completed must be a boolean value''"

definition createdAt_invalid :: string where
  "createdAt_invalid = ''CreatedAt must be a valid date''"

definition title_missing :: "prim \<Rightarrow> bool" where
  "title_missing t =
     (\<not> truthy t \<or> typeof t \<noteq> ''string'' \<or>
      (case t of Str s \<Rightarrow> length (trim s) = 0 | _ \<Rightarrow> False))"

definition validateTask :: "date_parse \<Rightarrow> jsval \<Rightarrow> validation" where
  "validateTask dp task =
     (if \<not> truthy_val task
      then \<lparr>isValid = False, errors = [''Task object is required'']\<rparr>
      else
        let title = getprop task ''title'';
            description = getprop task ''description'';
            priority = getprop task ''priority'';
            completed = getprop task ''completed'';
            createdAt = getprop task ''createdAt'';
            e1 = push_if (title_missing title) title_required [];
            e2 = push_if (truthy title \<and> length_gt title 100) title_too_long e1;
            e3 = push_if (truthy description \<and> typeof description \<noteq> ''string'')
                   description_not_string e2;
            e4 = push_if (truthy description \<and> length_gt description 500)
                   description_too_long e3;
            e5 = push_if (\<not> truthy priority \<or>
                          priority \<notin> set [Str ''High'', Str ''Medium'', Str ''Low''])
                   priority_invalid e4;
            e6 = push_if (typeof completed \<noteq> ''boolean'') completed_not_boolean e5;
            e7 = push_if (truthy createdAt \<and> newDate dp createdAt = None)
                   createdAt_invalid e6
        in \<lparr>isValid = (length e7 = 0), errors = e7\<rparr>)"

subsection \<open>Exceptions\<close>

text \<open>A \<open>throw\<close> is the left summand; \<open>and_then\<close> sequences two steps that may throw.\<close>

definition and_then :: "exn + 'a \<Rightarrow> ('a \<Rightarrow> exn + 'b) \<Rightarrow> exn + 'b" where
  "and_then r f = (case r of Inl e \<Rightarrow> Inl e | Inr x \<Rightarrow> f x)"

text \<open>\<open>s.toLowerCase()\<close> on a field value: only a string has the method.\<close>

fun to_lower :: "prim \<Rightarrow> exn + string" where
  "to_lower (Str s) = Inr (toLowerCase s)"
| "to_lower p = Inl TypeError"

section \<open>Query engine (task-utils.js)\<close>

subsection \<open>filterTasks\<close>

definition matches :: "string \<Rightarrow> jsval \<Rightarrow> exn + bool" where
  "matches term task =
     and_then (get task ''title'') (\<lambda>title.
     and_then (to_lower title) (\<lambda>t.
       if str_includes t term then Inr True
       else and_then (get task ''description'') (\<lambda>description.
         if \<not> truthy description then Inr False
         else and_then (to_lower description) (\<lambda>d. Inr (str_includes d term)))))"

fun filter_array :: "(jsval \<Rightarrow> exn + bool) \<Rightarrow> jsval list \<Rightarrow> exn + jsval list" where
  "filter_array p [] = Inr []"
| "filter_array p (t # ts) =
     and_then (p t) (\<lambda>keep.
     and_then (filter_array p ts) (\<lambda>rest. Inr (if keep then t # rest else rest)))"

fun isArray :: "jsarg \<Rightarrow> bool" where
  "isArray (Array ts) = True"
| "isArray (Val v) = False"

fun elements :: "jsarg \<Rightarrow> jsval list" where
  "elements (Array ts) = ts"
| "elements (Val v) = []"

definition filterTasks :: "jsarg \<Rightarrow> prim \<Rightarrow> exn + jsarg" where
  "filterTasks tasks searchTerm =
     (if \<not> truthy searchTerm \<or> \<not> isArray tasks then Inr tasks
      else and_then (to_lower searchTerm) (\<lambda>l.
           and_then (filter_array (matches (trim l)) (elements tasks)) (\<lambda>kept.
             Inr (Array kept))))"

subsection \<open>getTaskStats\<close>

text \<open>
  The counters are array lengths, so natural numbers. \<open>completionRate\<close> is the quotient the
  source computes, taken exactly (the engine rounds it to a double).
\<close>

record stats =
  total :: nat
  completed :: nat
  pending :: nat
  highPriority :: nat
  mediumPriority :: nat
  lowPriority :: nat
  completionRate :: rat






subsection \<open>sortTasks\<close>
















section \<open>Persistence adapter (local-storage.js)\<close>

subsection \<open>JSON.stringify\<close>

text \<open>
  The text that \<open>JSON.stringify\<close> writes for the values of the model: \<open>null\<close>,
  \<open>true\<close>, \<open>false\<close>, a quoted string with the quote, the backslash and the control
  characters escaped, an object with its fields in order, an array. A field that holds
  \<open>undefined\<close> is left out of its object; \<open>undefined\<close> and a function become \<open>null\<close> as
  elements of an array and have no text on their own.
\<close>

definition dquote :: char where
  "dquote = CHR 0x22"

definition backslash :: char where
  "backslash = CHR 0x5C"

definition hex_digit :: "nat \<Rightarrow> char" where
  "hex_digit d = ''0123456789abcdef'' ! d"

definition escape_char :: "char \<Rightarrow> string" where
  "escape_char c =
     (let n = (of_char c :: nat)
      in if c = dquote then [backslash, dquote]
         else if c = backslash then [backslash, backslash]
         else if n = 8 then [backslash, CHR ''b'']
         else if n = 12 then [backslash, CHR ''f'']
         else if n = 10 then [backslash, CHR ''n'']
         else if n = 13 then [backslash, CHR ''r'']
         else if n = 9 then [backslash, CHR ''t'']
         else if n < 32 then
           [backslash, CHR ''u'', CHR ''0'', CHR ''0'', hex_digit (n div 16), hex_digit (n mod 16)]
         else [c])"

definition QuoteJSONString :: "string \<Rightarrow> string" where
  "QuoteJSONString s = dquote # concat (map escape_char s) @ [dquote]"

fun stringify_prim :: "prim \<Rightarrow> string option" where
  "stringify_prim Undefined = None"
| "stringify_prim Null = Some ''null''"
| "stringify_prim (Bool b) = Some (if b then ''true'' else ''false'')"
| "stringify_prim (Str s) = Some (QuoteJSONString s)"

fun stringify_members :: "obj \<Rightarrow> string list" where
  "stringify_members [] = []"
| "stringify_members ((k, v) # fs) =
     (case stringify_prim v of
        None \<Rightarrow> stringify_members fs
      | Some t \<Rightarrow> (QuoteJSONString k @ '':'' @ t) # stringify_members fs)"

fun stringify_value :: "jsval \<Rightarrow> string option" where
  "stringify_value (Prim p) = stringify_prim p"
| "stringify_value Fn = None"
| "stringify_value (Object fs) =
     Some (''{'' @ join '','' (stringify_members (AList.clearjunk fs)) @ ''}'')"

definition stringify_element :: "jsval \<Rightarrow> string" where
  "stringify_element v = (case stringify_value v of None \<Rightarrow> ''null'' | Some t \<Rightarrow> t)"

fun JSON_stringify :: "jsarg \<Rightarrow> string option" where
  "JSON_stringify (Val v) = stringify_value v"
| "JSON_stringify (Array ts) = Some (''['' @ join '','' (map stringify_element ts) @ '']'')"

subsection \<open>JSON.parse\<close>

text \<open>
  \<open>JSON.parse\<close> in two passes, tokens first. The values of the model have no numbers
  and no array or object inside an object or inside the element of an array; a text that
  has one is \<open>Unmodelled\<close>: the model does not say what the engine returns for it. Any
  other text is parsed as the grammar of JSON has it, white space between tokens
  included, or is a \<open>SyntaxError\<close>. A key that comes twice keeps its first place and its
  last value.
\<close>

datatype token =
  LBracket | RBracket | LBrace | RBrace | Colon | Comma | TString string | TTrue | TFalse | TNull

datatype 'a parsed = Parsed 'a | SyntaxError | Unmodelled

definition hexval :: "char \<Rightarrow> nat option" where
  "hexval c =
     (let n = (of_char c :: nat)
      in if 48 \<le> n \<and> n \<le> 57 then Some (n - 48)
         else if 97 \<le> n \<and> n \<le> 102 then Some (n - 87)
         else if 65 \<le> n \<and> n \<le> 70 then Some (n - 55)
         else None)"

definition unescape :: "char \<Rightarrow> char option" where
  "unescape e =
     (if e = dquote \<or> e = backslash \<or> e = CHR ''/'' then Some e
      else if e = CHR ''b'' then Some (CHR 0x08)
      else if e = CHR ''f'' then Some (CHR 0x0C)
      else if e = CHR ''n'' then Some (CHR 0x0A)
      else if e = CHR ''r'' then Some (CHR 0x0D)
      else if e = CHR ''t'' then Some (CHR 0x09)
      else None)"

fun prepend :: "char \<Rightarrow> (string \<times> string) parsed \<Rightarrow> (string \<times> string) parsed" where
  "prepend c (Parsed (s, rest)) = Parsed (c # s, rest)"
| "prepend c SyntaxError = SyntaxError"
| "prepend c Unmodelled = Unmodelled"

fun read_string :: "string \<Rightarrow> (string \<times> string) parsed" where
  "read_string [] = SyntaxError"
| "read_string (c # cs) =
     (if c = dquote then Parsed ([], cs)
      else if c = backslash then
        (case cs of
           [] \<Rightarrow> SyntaxError
         | e # cs1 \<Rightarrow>
             if e = CHR ''u'' then
               (case cs1 of
                  h1 # h2 # h3 # h4 # cs2 \<Rightarrow>
                    (case (hexval h1, hexval h2, hexval h3, hexval h4) of
                       (Some d1, Some d2, Some d3, Some d4) \<Rightarrow>
                         if d1 = 0 \<and> d2 = 0
                         then prepend (char_of (16 * d3 + d4)) (read_string cs2)
                         else Unmodelled
                     | _ \<Rightarrow> SyntaxError)
                | _ \<Rightarrow> SyntaxError)
             else
               (case unescape e of
                  None \<Rightarrow> SyntaxError
                | Some x \<Rightarrow> prepend x (read_string cs1)))
      else if (of_char c :: nat) < 32 then SyntaxError
      else prepend c (read_string cs))"

lemma prepend_Parsed:
  "prepend x r = Parsed (s, rest) \<Longrightarrow> \<exists>s'. r = Parsed (s', rest)"
  by (cases "(x, r)" rule: prepend.cases) auto

lemma read_string_shorter:
  "read_string cs = Parsed (s, rest) \<Longrightarrow> length rest < length cs"
proof (induction cs arbitrary: s rule: read_string.induct)
  case 1
  then show ?case by simp
next
  case (2 c cs)
  show ?case
    using "2.prems" "2.IH"
    by (fastforce simp: Let_def split: if_splits list.splits option.splits
          dest!: prepend_Parsed)
qed

fun cons_token :: "token \<Rightarrow> token list parsed \<Rightarrow> token list parsed" where
  "cons_token t (Parsed ts) = Parsed (t # ts)"
| "cons_token t SyntaxError = SyntaxError"
| "cons_token t Unmodelled = Unmodelled"

definition is_json_space :: "char \<Rightarrow> bool" where
  "is_json_space c = ((of_char c :: nat) \<in> {9, 10, 13, 32})"

definition starts_number :: "char \<Rightarrow> bool" where
  "starts_number c = (c = CHR ''-'' \<or> (48 \<le> (of_char c :: nat) \<and> (of_char c :: nat) \<le> 57))"

function tokenize :: "string \<Rightarrow> token list parsed" where
  "tokenize [] = Parsed []"
| "tokenize (c # cs) =
     (if is_json_space c then tokenize cs
      else if c = CHR ''['' then cons_token LBracket (tokenize cs)
      else if c = CHR '']'' then cons_token RBracket (tokenize cs)
      else if c = CHR ''{'' then cons_token LBrace (tokenize cs)
      else if c = CHR ''}'' then cons_token RBrace (tokenize cs)
      else if c = CHR '':'' then cons_token Colon (tokenize cs)
      else if c = CHR '','' then cons_token Comma (tokenize cs)
      else if c = dquote then
        (case read_string cs of
           Parsed (s, rest) \<Rightarrow> cons_token (TString s) (tokenize rest)
         | SyntaxError \<Rightarrow> SyntaxError
         | Unmodelled \<Rightarrow> Unmodelled)
      else if starts_with (c # cs) ''true'' then cons_token TTrue (tokenize (drop 3 cs))
      else if starts_with (c # cs) ''false'' then cons_token TFalse (tokenize (drop 4 cs))
      else if starts_with (c # cs) ''null'' then cons_token TNull (tokenize (drop 3 cs))
      else if starts_number c then Unmodelled
      else SyntaxError)"
  by pat_completeness auto
termination
  by (relation "measure length") (auto dest: read_string_shorter)

declare tokenize.simps(2) [simp del]

fun prim_of_token :: "token \<Rightarrow> prim option" where
  "prim_of_token TNull = Some Null"
| "prim_of_token TTrue = Some (Bool True)"
| "prim_of_token TFalse = Some (Bool False)"
| "prim_of_token (TString s) = Some (Str s)"
| "prim_of_token t = None"

fun parse_members :: "obj \<Rightarrow> token list \<Rightarrow> (obj \<times> token list) parsed" where
  "parse_members acc (TString k # Colon # v # sep # rest) =
     (case prim_of_token v of
        None \<Rightarrow> if v = LBrace \<or> v = LBracket then Unmodelled else SyntaxError
      | Some p \<Rightarrow>
          if sep = RBrace then Parsed (AList.update k p acc, rest)
          else if sep = Comma then parse_members (AList.update k p acc) rest
          else SyntaxError)"
| "parse_members acc ts = SyntaxError"

fun parse_element :: "token list \<Rightarrow> (jsval \<times> token list) parsed" where
  "parse_element [] = SyntaxError"
| "parse_element (LBrace # RBrace # rest) = Parsed (Object [], rest)"
| "parse_element (LBrace # rest) =
     (case parse_members [] rest of
        Parsed (fs, rest') \<Rightarrow> Parsed (Object fs, rest')
      | SyntaxError \<Rightarrow> SyntaxError
      | Unmodelled \<Rightarrow> Unmodelled)"
| "parse_element (LBracket # rest) = Unmodelled"
| "parse_element (t # rest) =
     (case prim_of_token t of None \<Rightarrow> SyntaxError | Some p \<Rightarrow> Parsed (Prim p, rest))"

lemma parse_members_shorter:
  "parse_members acc ts = Parsed (fs, rest) \<Longrightarrow> length rest < length ts"
  by (induction acc ts rule: parse_members.induct) (auto split: option.splits if_splits)

lemma parse_element_shorter:
  "parse_element ts = Parsed (v, rest) \<Longrightarrow> length rest < length ts"
  by (induction ts rule: parse_element.induct)
     (auto split: option.splits parsed.splits dest: parse_members_shorter)

function parse_elements :: "token list \<Rightarrow> (jsval list \<times> token list) parsed" where
  "parse_elements ts =
     (case parse_element ts of
        Parsed (v, rest) \<Rightarrow>
          (case rest of
             Comma # rest' \<Rightarrow>
               (case parse_elements rest' of
                  Parsed (vs, r) \<Rightarrow> Parsed (v # vs, r)
                | SyntaxError \<Rightarrow> SyntaxError
                | Unmodelled \<Rightarrow> Unmodelled)
           | RBracket # rest' \<Rightarrow> Parsed ([v], rest')
           | _ \<Rightarrow> SyntaxError)
      | SyntaxError \<Rightarrow> SyntaxError
      | Unmodelled \<Rightarrow> Unmodelled)"
  by pat_completeness auto
termination
  by (relation "measure length") (auto dest: parse_element_shorter)

declare parse_elements.simps [simp del]

definition finish :: "jsarg \<Rightarrow> token list \<Rightarrow> jsarg parsed" where
  "finish v rest = (if rest = [] then Parsed v else SyntaxError)"

fun parse_value :: "token list \<Rightarrow> jsarg parsed" where
  "parse_value (LBracket # RBracket # rest) = finish (Array []) rest"
| "parse_value (LBracket # rest) =
     (case parse_elements rest of
        Parsed (vs, r) \<Rightarrow> finish (Array vs) r
      | SyntaxError \<Rightarrow> SyntaxError
      | Unmodelled \<Rightarrow> Unmodelled)"
| "parse_value ts =
     (case parse_element ts of
        Parsed (v, r) \<Rightarrow> finish (Val v) r
      | SyntaxError \<Rightarrow> SyntaxError
      | Unmodelled \<Rightarrow> Unmodelled)"

definition JSON_parse :: "string \<Rightarrow> jsarg parsed" where
  "JSON_parse text =
     (case tokenize text of
        Parsed ts \<Rightarrow> parse_value ts
      | SyntaxError \<Rightarrow> SyntaxError
      | Unmodelled \<Rightarrow> Unmodelled)"

subsection \<open>localStorage\<close>

text \<open>
  The store maps keys to strings. \<open>setItem\<close> throws when the value is longer than the
  quota of the store, which stands for every reason the browser has to refuse a write.
\<close>

record storage =
  items :: "string \<Rightarrow> string option"
  quota :: nat

definition STORAGE_KEY :: string where
  "STORAGE_KEY = ''tasks''"

definition getItem :: "storage \<Rightarrow> string \<Rightarrow> string option" where
  "getItem st k = items st k"

definition setItem :: "storage \<Rightarrow> string \<Rightarrow> string \<Rightarrow> exn + storage" where
  "setItem st k v =
     (if quota st < length v then Inl (Error ''QuotaExceededError'')
      else Inr (st\<lparr>items := (items st)(k \<mapsto> v)\<rparr>))"

definition saveTasks :: "jsarg \<Rightarrow> storage \<Rightarrow> bool \<times> storage" where
  "saveTasks tasks st =
     (if \<not> isArray tasks then (False, st)
      else
        let serializedTasks = (case JSON_stringify tasks of None \<Rightarrow> ''undefined'' | Some t \<Rightarrow> t)
        in case setItem st STORAGE_KEY serializedTasks of
             Inl e \<Rightarrow> (False, st)
           | Inr st' \<Rightarrow> (True, st'))"

definition loadTasks :: "storage \<Rightarrow> jsval list option" where
  "loadTasks st =
     (case getItem st STORAGE_KEY of
        None \<Rightarrow> Some []
      | Some serializedTasks \<Rightarrow>
          if serializedTasks = [] then Some []
          else
            (case JSON_parse serializedTasks of
               SyntaxError \<Rightarrow> Some []
             | Unmodelled \<Rightarrow> None
             | Parsed tasks \<Rightarrow> if \<not> isArray tasks then Some [] else Some (elements tasks)))"

section \<open>Task manager (use-task-manager.js)\<close>

text \<open>
  The hook keeps the collection and the error flag in React state. \<open>setTasks(f)\<close> is
  modelled as applying the updater \<open>f\<close> to the current collection at once, an exception
  of \<open>f\<close> reaching the \<open>catch\<close> of the operation and leaving the collection as it was:
  this is what the source relies on when it reads \<open>updatedTask\<close> after \<open>setTasks\<close>.
  \<open>uuidv4()\<close> and \<open>new Date().toISOString()\<close> are inputs of \<open>addTask\<close>. Nothing
  in the body of \<open>addTask\<close> throws on the values of the model, so its \<open>catch\<close> has no
  branch here. The effects that load the collection on mount and save it after a change
  are not part of what an operation returns and are left out; the adapter they call is
  modelled above.
\<close>

datatype message = Message string | EngineMessage

datatype op_result = Success "jsval option" | Failure message

record manager =
  tasks :: "jsval list"
  error :: "message option"

text \<open>
  \<open>err.message || fallback\<close>: the text of an \<open>Error\<close> is its argument, the text of a
  TypeError is the engine's (\<open>EngineMessage\<close>, never empty).
\<close>

fun message_or :: "exn \<Rightarrow> string \<Rightarrow> message" where
  "message_or TypeError fallback = EngineMessage"
| "message_or (Error s) fallback = (if s = [] then Message fallback else Message s)"

subsection \<open>Object spread\<close>

text \<open>
  \<open>{...v}\<close> copies the own enumerable properties of \<open>v\<close>: the fields of an object, the
  code units of a string under their indices, nothing for any other primitive and nothing
  for a function. A later property of an object literal overrides an earlier one with the
  same key and keeps its place.
\<close>

fun decimal :: "nat \<Rightarrow> string" where
  "decimal n = (if n < 10 then [char_of (48 + n)]
                else decimal (n div 10) @ [char_of (48 + n mod 10)])"

declare decimal.simps [simp del]

fun own_props :: "jsval \<Rightarrow> obj" where
  "own_props (Object fs) = AList.clearjunk fs"
| "own_props (Prim (Str s)) = map (\<lambda>i. (decimal i, Str [s ! i])) [0..<length s]"
| "own_props v = []"

definition assign :: "obj \<Rightarrow> obj \<Rightarrow> obj" where
  "assign target source = fold (\<lambda>(k, v). AList.update k v) source target"

subsection \<open>Operations\<close>

definition addTask ::
  "date_parse \<Rightarrow> string \<Rightarrow> string \<Rightarrow> jsval \<Rightarrow> manager \<Rightarrow> op_result \<times> manager" where
  "addTask dp uuid now taskData m =
     (let newTask = Object
            (AList.update ''createdAt'' (Str now)
              (AList.update ''completed'' (Bool False)
                (assign [(''id'', Str uuid)] (own_props taskData))));
          validation = validateTask dp newTask
      in if \<not> isValid validation
         then (Failure (Message (join '', '' (errors validation))), m)
         else (Success (Some newTask), m\<lparr>tasks := tasks m @ [newTask], error := None\<rparr>))"

text \<open>\<open>task.id === taskId\<close>; an id is a primitive, compared by value.\<close>

definition id_is :: "prim \<Rightarrow> jsval \<Rightarrow> exn + bool" where
  "id_is taskId task = and_then (get task ''id'') (\<lambda>i. Inr (i = taskId))"


fun findIndex :: "(jsval \<Rightarrow> exn + bool) \<Rightarrow> jsval list \<Rightarrow> exn + nat option" where
  "findIndex p [] = Inr None"
| "findIndex p (t # ts) =
     and_then (p t) (\<lambda>hit.
       if hit then Inr (Some 0)
       else and_then (findIndex p ts) (\<lambda>r. Inr (map_option Suc r)))"


text \<open>
  The updater of \<open>updateTask\<close>: the merged record and the new collection. The index that
  \<open>findIndex\<close> returns is one of the collection, so \<open>prevTasks ! i\<close> is a record of it.
\<close>

definition update_tasks ::
  "date_parse \<Rightarrow> prim \<Rightarrow> jsval \<Rightarrow> jsval list \<Rightarrow> exn + jsval \<times> jsval list" where
  "update_tasks dp taskId updates prevTasks =
     and_then (findIndex (id_is taskId) prevTasks) (\<lambda>taskIndex.
       case taskIndex of
         None \<Rightarrow> Inl (Error ''Task not found'')
       | Some i \<Rightarrow>
           let updatedTask = Object (assign (own_props (prevTasks ! i)) (own_props updates));
               validation = validateTask dp updatedTask
           in if \<not> isValid validation
              then Inl (Error (join '', '' (errors validation)))
              else Inr (updatedTask, prevTasks[i := updatedTask]))"

definition updateTask ::
  "date_parse \<Rightarrow> prim \<Rightarrow> jsval \<Rightarrow> manager \<Rightarrow> op_result \<times> manager" where
  "updateTask dp taskId updates m =
     (case update_tasks dp taskId updates (tasks m) of
        Inr (updatedTask, newTasks) \<Rightarrow>
          (Success (Some updatedTask), m\<lparr>tasks := newTasks, error := None\<rparr>)
      | Inl err \<Rightarrow>
          (let errorMessage = message_or err ''Failed to update task''
           in (Failure errorMessage, m\<lparr>error := Some errorMessage\<rparr>)))"



text \<open>
  \<open>toggleTask\<close> hands \<open>updateTask\<close> the arrow function
  \<open>(prevTask) => ({completed: !prevTask.completed})\<close> as its \<open>updates\<close>; \<open>updateTask\<close>
  does not call it, it spreads it.
\<close>

definition toggleTask :: "date_parse \<Rightarrow> prim \<Rightarrow> manager \<Rightarrow> op_result \<times> manager" where
  "toggleTask dp taskId m = updateTask dp taskId Fn m"

definition clearAllTasks :: "manager \<Rightarrow> op_result \<times> manager" where
  "clearAllTasks m = (Success None, m\<lparr>tasks := [], error := None\<rparr>)"

section \<open>Notions used to state the properties\<close>

text \<open>A record is any value that is neither \<open>undefined\<close> nor \<open>null\<close>.\<close>

fun nullish :: "jsval \<Rightarrow> bool" where
  "nullish (Prim Undefined) = True"
| "nullish (Prim Null) = True"
| "nullish v = False"

fun text_of :: "prim \<Rightarrow> string" where
  "text_of (Str s) = s"
| "text_of p = []"

text \<open>
  A record that \<open>filterTasks\<close> can match: the title is a string, and the description is
  a string or falsy (absent, \<open>null\<close>, \<open>false\<close>).
\<close>

definition searchable :: "jsval \<Rightarrow> bool" where
  "searchable t =
     (\<not> nullish t \<and> typeof (getprop t ''title'') = ''string'' \<and>
      (truthy (getprop t ''description'') \<longrightarrow> typeof (getprop t ''description'') = ''string''))"

definition contains_term :: "string \<Rightarrow> jsval \<Rightarrow> bool" where
  "contains_term term t =
     (str_includes (toLowerCase (text_of (getprop t ''title''))) term \<or>
      (truthy (getprop t ''description'') \<and>
       str_includes (toLowerCase (text_of (getprop t ''description''))) term))"


subsection \<open>Notions about sorting\<close>





text \<open>
  Reversing a list run by run: the runs of tied records change places, the records of
  one run keep their order.
\<close>

function reverse_runs :: "('a \<Rightarrow> 'a \<Rightarrow> bool) \<Rightarrow> 'a list \<Rightarrow> 'a list" where
  "reverse_runs tie [] = []"
| "reverse_runs tie (x # xs) =
     reverse_runs tie (dropWhile (tie x) xs) @ x # takeWhile (tie x) xs"
  by pat_completeness auto

termination
  by (relation "measure (\<lambda>(tie, xs). length xs)") (auto simp: length_dropWhile_le less_Suc_eq_le)

text \<open>
  The insertion sort on a comparator that cannot throw, and the number that the
  comparator of a key returns, ascending and in the given order; used in the proofs.
\<close>

fun insert_by :: "('a \<Rightarrow> 'a \<Rightarrow> int) \<Rightarrow> 'a \<Rightarrow> 'a list \<Rightarrow> 'a list" where
  "insert_by c x [] = [x]"
| "insert_by c x (y # ys) = (if c x y \<le> 0 then x # y # ys else y # insert_by c x ys)"

fun sort_by :: "('a \<Rightarrow> 'a \<Rightarrow> int) \<Rightarrow> 'a list \<Rightarrow> 'a list" where
  "sort_by c [] = []"
| "sort_by c (x # xs) = insert_by c x (sort_by c xs)"




subsection \<open>Notions about the stored text\<close>

text \<open>
  A value that JSON represents as it is: no \<open>undefined\<close> and no function, and the keys
  of an object all different. Every record of the data model is one.
\<close>

fun storable :: "jsval \<Rightarrow> bool" where
  "storable (Prim p) = (p \<noteq> Undefined)"
| "storable Fn = False"
| "storable (Object fs) = (distinct (map fst fs) \<and> Undefined \<notin> snd ` set fs)"

text \<open>The tokens of the text of a storable value, and a text that yields given tokens.\<close>

fun token_of :: "prim \<Rightarrow> token" where
  "token_of (Str s) = TString s"
| "token_of (Bool b) = (if b then TTrue else TFalse)"
| "token_of p = TNull"

fun tokens_of_members :: "obj \<Rightarrow> token list" where
  "tokens_of_members [] = []"
| "tokens_of_members [(k, p)] = [TString k, Colon, token_of p]"
| "tokens_of_members ((k, p) # f # fs) =
     TString k # Colon # token_of p # Comma # tokens_of_members (f # fs)"

fun tokens_of_value :: "jsval \<Rightarrow> token list" where
  "tokens_of_value (Prim p) = [token_of p]"
| "tokens_of_value Fn = [TNull]"
| "tokens_of_value (Object fs) = LBrace # tokens_of_members fs @ [RBrace]"

fun tokens_of_elements :: "jsval list \<Rightarrow> token list" where
  "tokens_of_elements [] = []"
| "tokens_of_elements [v] = tokens_of_value v"
| "tokens_of_elements (v # w # vs) = tokens_of_value v @ Comma # tokens_of_elements (w # vs)"

definition lexes :: "string \<Rightarrow> token list \<Rightarrow> bool" where
  "lexes text ts = (\<forall>rest. tokenize (text @ rest) = foldr cons_token ts (tokenize rest))"

subsection \<open>Sample data, from the repository's tests\<close>

definition sample_dates :: date_parse where
  "sample_dates = map_of
     [(''2024-01-01T00:00:00.000Z'', 1704067200000),
      (''2024-01-02T00:00:00.000Z'', 1704153600000),
      (''2024-01-03T00:00:00.000Z'', 1704240000000),
      (''2024-01-04T00:00:00.000Z'', 1704326400000)]"

definition mock1 :: jsval where
  "mock1 = Object
     [(''id'', Str ''1''), (''title'', Str ''High Priority Task''),
      (''description'', Str ''Important task''), (''priority'', Str ''High''),
      (''completed'', Bool False), (''createdAt'', Str ''2024-01-01T00:00:00.000Z'')]"

definition mock2 :: jsval where
  "mock2 = Object
     [(''id'', Str ''2''), (''title'', Str ''Medium Priority Task''),
      (''description'', Str ''Normal task''), (''priority'', Str ''Medium''),
      (''completed'', Bool True), (''createdAt'', Str ''2024-01-02T00:00:00.000Z'')]"

definition mock3 :: jsval where
  "mock3 = Object
     [(''id'', Str ''3''), (''title'', Str ''Low Priority Task''),
      (''description'', Str ''Less important task''), (''priority'', Str ''Low''),
      (''completed'', Bool False), (''createdAt'', Str ''2024-01-03T00:00:00.000Z'')]"

definition mock4 :: jsval where
  "mock4 = Object
     [(''id'', Str ''4''), (''title'', Str ''Another High Priority''),
      (''description'', Str ''Another important task''), (''priority'', Str ''High''),
      (''completed'', Bool True), (''createdAt'', Str ''2024-01-04T00:00:00.000Z'')]"

definition mockTasks :: "jsval list" where
  "mockTasks = [mock1, mock2, mock3, mock4]"

definition toggle_task :: jsval where
  "toggle_task = Object
     [(''id'', Str ''1''), (''title'', Str ''Task to Toggle''), (''priority'', Str ''Medium''),
      (''completed'', Bool False), (''createdAt'', Str ''2024-01-01T00:00:00.000Z'')]"



definition duplicate_task :: jsval where
  "duplicate_task = Object
     [(''id'', Str ''1''), (''title'', Str ''Dup''), (''priority'', Str ''High''),
      (''completed'', Bool False), (''createdAt'', Str ''2024-01-02T00:00:00.000Z'')]"

definition empty_storage :: storage where
  "empty_storage = \<lparr>items = (\<lambda>k. None), quota = 5000\<rparr>"

section \<open>Properties\<close>

subsection \<open>Auxiliary facts\<close>

lemmas message_defs =
  title_required_def title_too_long_def description_not_string_def
  description_too_long_def priority_invalid_def completed_not_boolean_def
  createdAt_invalid_def

lemmas mock_defs = mockTasks_def mock1_def mock2_def mock3_def mock4_def

lemma and_then_Inr [simp]: "and_then (Inr x) f = f x"
  by (simp add: and_then_def)

lemma and_then_Inl [simp]: "and_then (Inl e) f = Inl e"
  by (simp add: and_then_def)

lemma get_not_nullish: "\<not> nullish v \<Longrightarrow> get v k = Inr (getprop v k)"
  by (cases "(v, k)" rule: get.cases) auto

subsection \<open>Validator\<close>

text \<open>
  C10. A record without a \<open>completed\<close> field does not pass validation: the error list
  holds the message about \<open>completed\<close>, so it is not empty and \<open>isValid\<close> is false.
\<close>

theorem validate_completed_absent:
  assumes "map_of fs ''completed'' = None"
  shows "completed_not_boolean \<in> set (errors (validateTask dp (Object fs)))
       \<and> errors (validateTask dp (Object fs)) \<noteq> []
       \<and> \<not> isValid (validateTask dp (Object fs))"
  using assms by (auto simp: validateTask_def Let_def push_if_def)

theorem validate_completed_absent_witness:
  "completed_not_boolean \<in> set (errors (validateTask sample_dates
       (Object [(''title'', Str ''Buy milk''), (''priority'', Str ''High'')])))
   \<and> errors (validateTask sample_dates
       (Object [(''title'', Str ''Buy milk''), (''priority'', Str ''High'')])) \<noteq> []"
  using validate_completed_absent
          [of "[(''title'', Str ''Buy milk''), (''priority'', Str ''High'')]" sample_dates]
  by simp

text \<open>
  C4, as the code has it. For a record whose title is a string, the error "Title must be
  100 characters or less" is reported exactly when the length of the title as given, white
  space included, exceeds 100. The title is trimmed for the emptiness check only.
\<close>

theorem validate_title_too_long_raw_length:
  assumes "truthy_val task" and "getprop task ''title'' = Str s"
  shows "(title_too_long \<in> set (errors (validateTask dp task))) = (100 < length s)"
  using assms by (auto simp: validateTask_def Let_def push_if_def message_defs)

theorem validate_title_too_long_raw_length_witness:
  "(title_too_long \<in> set (errors (validateTask sample_dates mock1)))
     = (100 < length ''High Priority Task'')"
proof -
  have "truthy_val mock1" and "getprop mock1 ''title'' = Str ''High Priority Task''"
    by (simp_all add: mock1_def)
  then show ?thesis
    by (rule validate_title_too_long_raw_length)
qed

text \<open>
  The claim as the specification states it compares the trimmed length. A title of 99
  letters followed by two blanks has trimmed length 99 and is reported as too long.
\<close>

theorem validate_title_trimmed_length_counterexample:
  "length (trim (replicate 99 (CHR ''A'') @ ''  '')) = 99
   \<and> title_too_long \<in> set (errors (validateTask sample_dates
        (Object [(''title'', Str (replicate 99 (CHR ''A'') @ ''  ''))])))"
  by code_simp

subsection \<open>Statistics\<close>




subsection \<open>Filter\<close>

lemma matches_searchable:
  "searchable t \<Longrightarrow> matches term t = Inr (contains_term term t)"
  unfolding searchable_def matches_def contains_term_def
  by (cases "getprop t ''title''"; cases "getprop t ''description''")
     (auto simp: get_not_nullish)

lemma filter_array_total:
  "\<forall>t\<in>set ts. p t = Inr (q t) \<Longrightarrow> filter_array p ts = Inr (filter q ts)"
  by (induction ts) auto

lemma filter_array_matches:
  "\<forall>t\<in>set ts. searchable t \<Longrightarrow>
     filter_array (matches term) ts = Inr (filter (contains_term term) ts)"
  by (rule filter_array_total) (simp add: matches_searchable)

text \<open>
  C5, as the code has it. \<open>filterTasks\<close> returns its input unchanged when the search term
  is falsy (empty or absent) or the input is not an array. For an array whose records
  each have a string title and a description that is a string or falsy, and a string
  search term, it throws nothing and returns, in order, the records whose lower-cased
  title or description contains the lower-cased, trimmed term.
\<close>

theorem filterTasks_passthrough_or_matches:
  "((\<not> truthy searchTerm \<or> \<not> isArray arg) \<longrightarrow> filterTasks arg searchTerm = Inr arg)
 \<and> ((\<forall>t\<in>set ts. searchable t) \<longrightarrow>
      filterTasks (Array ts) (Str s) =
        Inr (Array (if s = [] then ts
                    else filter (contains_term (trim (toLowerCase s))) ts)))"
  by (auto simp: filterTasks_def filter_array_matches)

theorem filterTasks_passthrough_or_matches_witness:
  "filterTasks (Val (Prim Null)) (Str ''x'') = Inr (Val (Prim Null))
   \<and> filterTasks (Array mockTasks) (Str '' HIGH '') = Inr (Array [mock1, mock4])"
proof -
  have s: "\<forall>t\<in>set mockTasks. searchable t"
    by (simp add: mock_defs searchable_def)
  have f: "filter (contains_term (trim (toLowerCase '' HIGH ''))) mockTasks = [mock1, mock4]"
    by code_simp
  from filterTasks_passthrough_or_matches[of "Str ''x''" "Val (Prim Null)" mockTasks "'' HIGH ''"]
  show ?thesis
    using s f by simp
qed

text \<open>
  The claim as the specification states it has \<open>filterTasks\<close> return its input, without
  a fault, on an array with a record that lacks a title. Reading \<open>task.title.toLowerCase\<close>
  on such a record throws.
\<close>

theorem filterTasks_missing_title_counterexample:
  "filterTasks (Array [Object [(''description'', Str ''x'')]]) (Str ''x'') = Inl TypeError"
  by code_simp

subsection \<open>Task manager\<close>





















text \<open>
  C2. \<open>addTask\<close> puts its fresh id before the spread of the draft and \<open>completed\<close> and
  \<open>createdAt\<close> after it, so the draft cannot set the last two and can set the id. A draft
  that carries the id of a record of the collection is added under that id.
\<close>

theorem addTask_takes_id_of_draft:
  "addTask sample_dates ''mock-uuid-123'' ''2024-01-02T00:00:00.000Z''
     (Object [(''id'', Str ''1''), (''title'', Str ''Dup''), (''priority'', Str ''High'')])
     \<lparr>tasks = [toggle_task], error = None\<rparr> =
   (Success (Some duplicate_task), \<lparr>tasks = [toggle_task, duplicate_task], error = None\<rparr>)
   \<and> getprop duplicate_task ''id'' = Str ''1''
   \<and> getprop toggle_task ''id'' = Str ''1''"
  by code_simp

text \<open>
  C1. \<open>toggleTask\<close> succeeds on the record of the test and returns it as it was:
  \<open>completed\<close> is still false, in the result and in the collection. Spreading the arrow
  function contributes no field.
\<close>

theorem toggleTask_leaves_completed:
  "toggleTask sample_dates (Str ''1'') \<lparr>tasks = [toggle_task], error = None\<rparr> =
     (Success (Some toggle_task), \<lparr>tasks = [toggle_task], error = None\<rparr>)
   \<and> getprop toggle_task ''completed'' = Bool False"
  by code_simp

subsection \<open>Sorting\<close>








lemma mset_insert_by [simp]: "mset (insert_by c x ys) = add_mset x (mset ys)"
  by (induction ys) auto

lemma set_insert_by [simp]: "set (insert_by c x ys) = insert x (set ys)"
  by (induction ys) auto

lemma mset_sort_by [simp]: "mset (sort_by c xs) = mset xs"
  by (induction xs) auto

lemma set_sort_by [simp]: "set (sort_by c xs) = set xs"
  by (induction xs) auto









lemma mset_reverse_runs [simp]: "mset (reverse_runs tie xs) = mset xs"
proof (induction tie xs rule: reverse_runs.induct)
  case (1 tie)
  then show ?case by simp
next
  case (2 tie x xs)
  have "mset (takeWhile (tie x) xs) + mset (dropWhile (tie x) xs) = mset xs"
    by (metis mset_append takeWhile_dropWhile_id)
  with 2 show ?case by (simp add: add.commute)
qed

lemma set_reverse_runs [simp]: "set (reverse_runs tie xs) = set xs"
  by (metis mset_reverse_runs set_mset_mset)























subsection \<open>Persistence\<close>

lemma lexes_Nil: "lexes [] []"
  by (simp add: lexes_def)

lemma lexes_append: "lexes a ts \<Longrightarrow> lexes b us \<Longrightarrow> lexes (a @ b) (ts @ us)"
  by (simp add: lexes_def)

lemma lexes_punctuation:
  "lexes ''['' [LBracket]" "lexes '']'' [RBracket]" "lexes ''{'' [LBrace]" "lexes ''}'' [RBrace]"
  "lexes '':'' [Colon]" "lexes '','' [Comma]"
  by (simp_all add: lexes_def tokenize.simps(2) is_json_space_def)

lemma lexes_literals:
  "lexes ''null'' [TNull]" "lexes ''true'' [TTrue]" "lexes ''false'' [TFalse]"
  by (simp_all add: lexes_def tokenize.simps(2) is_json_space_def dquote_def)

lemma hexval_hex_digit: "d < 16 \<Longrightarrow> hexval (hex_digit d) = Some d"
proof -
  have "\<forall>d\<in>set [0..<16]. hexval (hex_digit d) = Some d"
    by code_simp
  moreover assume "d < 16"
  ultimately show ?thesis
    by simp
qed

lemma char_of_code: "(of_char c :: nat) = n \<Longrightarrow> c = char_of n"
  by auto

lemma read_string_escape:
  "read_string (escape_char c @ text) = prepend c (read_string text)"
proof -
  let ?n = "of_char c :: nat"
  consider "c = dquote" | "c = backslash"
    | "?n = 8" | "?n = 12" | "?n = 10" | "?n = 13" | "?n = 9"
    | "c \<noteq> dquote" "c \<noteq> backslash" "?n \<noteq> 8" "?n \<noteq> 12" "?n \<noteq> 10" "?n \<noteq> 13" "?n \<noteq> 9" "?n < 32"
    | "c \<noteq> dquote" "c \<noteq> backslash" "\<not> ?n < 32"
    by fastforce
  then show ?thesis
  proof cases
    case 1
    then show ?thesis
      by (simp add: escape_char_def unescape_def dquote_def backslash_def)
  next
    case 2
    then show ?thesis
      by (simp add: escape_char_def unescape_def dquote_def backslash_def)
  next
    case 3
    then have "(of_char c :: nat) = of_char (CHR 0x08)" by simp
    then have "c = CHR 0x08" by (simp only: of_char_eq_iff)
    then show ?thesis
      by (simp add: escape_char_def unescape_def dquote_def backslash_def)
  next
    case 4
    then have "(of_char c :: nat) = of_char (CHR 0x0C)" by simp
    then have "c = CHR 0x0C" by (simp only: of_char_eq_iff)
    then show ?thesis
      by (simp add: escape_char_def unescape_def dquote_def backslash_def)
  next
    case 5
    then have "(of_char c :: nat) = of_char (CHR 0x0A)" by simp
    then have "c = CHR 0x0A" by (simp only: of_char_eq_iff)
    then show ?thesis
      by (simp add: escape_char_def unescape_def dquote_def backslash_def)
  next
    case 6
    then have "(of_char c :: nat) = of_char (CHR 0x0D)" by simp
    then have "c = CHR 0x0D" by (simp only: of_char_eq_iff)
    then show ?thesis
      by (simp add: escape_char_def unescape_def dquote_def backslash_def)
  next
    case 7
    then have "(of_char c :: nat) = of_char (CHR 0x09)" by simp
    then have "c = CHR 0x09" by (simp only: of_char_eq_iff)
    then show ?thesis
      by (simp add: escape_char_def unescape_def dquote_def backslash_def)
  next
    case 8
    have zero: "hexval CHR ''0'' = Some 0"
      by (simp add: hexval_def)
    have hi: "hexval (hex_digit (?n div 16)) = Some (?n div 16)"
      and lo: "hexval (hex_digit (?n mod 16)) = Some (?n mod 16)"
      using 8 by (simp_all add: hexval_hex_digit)
    have "?n div 16 * 16 + ?n mod 16 = ?n" by simp
    then have decoded: "char_of (16 * (?n div 16) + ?n mod 16) = c"
      by (simp add: mult.commute)
    have esc: "escape_char c = [backslash, CHR ''u'', CHR ''0'', CHR ''0'',
                 hex_digit (?n div 16), hex_digit (?n mod 16)]"
      using 8 by (simp add: escape_char_def Let_def)
    show ?thesis
      unfolding esc using zero hi lo decoded
      by (simp add: dquote_def backslash_def)
  next
    case 9
    then show ?thesis
      by (simp add: escape_char_def Let_def)
  qed
qed

lemma read_string_quoted:
  "read_string (concat (map escape_char s) @ dquote # rest) = Parsed (s, rest)"
  by (induction s) (simp_all add: read_string_escape)

lemma lexes_string: "lexes (QuoteJSONString s) [TString s]"
  unfolding lexes_def QuoteJSONString_def
  by (simp add: tokenize.simps(2) read_string_quoted is_json_space_def)
     (simp add: dquote_def)

lemma lexes_prim:
  "p \<noteq> Undefined \<Longrightarrow> \<exists>t. stringify_prim p = Some t \<and> lexes t [token_of p]"
  by (cases p) (auto simp: lexes_literals lexes_string)

lemma stringify_members_not_empty:
  "Undefined \<notin> snd ` set fs \<Longrightarrow> fs \<noteq> [] \<Longrightarrow> stringify_members fs \<noteq> []"
proof (cases fs)
  case Nil
  then show "fs \<noteq> [] \<Longrightarrow> ?thesis" by simp
next
  case (Cons f fs')
  obtain k p where f: "f = (k, p)" by (cases f)
  assume "Undefined \<notin> snd ` set fs"
  with Cons f have "p \<noteq> Undefined" by auto
  then obtain t where "stringify_prim p = Some t"
    using lexes_prim by blast
  with Cons f show ?thesis by simp
qed

lemma lexes_member:
  assumes "p \<noteq> Undefined"
  shows "\<exists>t. stringify_members ((k, p) # fs) = t # stringify_members fs
           \<and> lexes t [TString k, Colon, token_of p]"
proof -
  from lexes_prim[OF assms] obtain u where u: "stringify_prim p = Some u" "lexes u [token_of p]"
    by blast
  have "lexes (QuoteJSONString k @ '':'' @ u) ([TString k] @ [Colon] @ [token_of p])"
    by (intro lexes_append lexes_string lexes_punctuation u)
  with u show ?thesis by simp
qed

lemma lexes_members:
  "Undefined \<notin> snd ` set fs \<Longrightarrow>
     lexes (join '','' (stringify_members fs)) (tokens_of_members fs)"
proof (induction fs rule: tokens_of_members.induct)
  case 1
  then show ?case by (simp add: lexes_Nil)
next
  case (2 k p)
  then have "p \<noteq> Undefined" by auto
  from lexes_member[OF this, of k "[]"] show ?case by auto
next
  case (3 k p f fs)
  then have p: "p \<noteq> Undefined" and rest: "Undefined \<notin> snd ` set (f # fs)" by auto
  from lexes_member[OF p, of k "f # fs"] obtain t
    where t: "stringify_members ((k, p) # f # fs) = t # stringify_members (f # fs)"
      "lexes t [TString k, Colon, token_of p]"
    by blast
  from stringify_members_not_empty[OF rest] obtain y ys
    where ys: "stringify_members (f # fs) = y # ys"
    by (cases "stringify_members (f # fs)") auto
  have joined: "join '','' (stringify_members ((k, p) # f # fs))
                = t @ '','' @ join '','' (stringify_members (f # fs))"
    unfolding t ys by simp
  have "lexes (t @ '','' @ join '','' (stringify_members (f # fs)))
          ([TString k, Colon, token_of p] @ [Comma] @ tokens_of_members (f # fs))"
    by (intro lexes_append t lexes_punctuation "3.IH"[OF rest])
  then show ?case
    unfolding joined by simp
qed

lemma lexes_value:
  assumes "storable v"
  shows "lexes (stringify_element v) (tokens_of_value v)"
proof (cases v)
  case (Prim p)
  with assms lexes_prim[of p] show ?thesis
    by (auto simp: stringify_element_def)
next
  case Fn
  with assms show ?thesis by simp
next
  case (Object fs)
  with assms have d: "distinct (map fst fs)" and u: "Undefined \<notin> snd ` set fs"
    by auto
  have "lexes (''{'' @ join '','' (stringify_members fs) @ ''}'')
          ([LBrace] @ tokens_of_members fs @ [RBrace])"
    by (intro lexes_append lexes_punctuation lexes_members[OF u])
  then show ?thesis
    by (simp add: Object stringify_element_def distinct_clearjunk_id[OF d])
qed

lemma lexes_elements:
  "\<forall>v\<in>set vs. storable v \<Longrightarrow>
     lexes (join '','' (map stringify_element vs)) (tokens_of_elements vs)"
proof (induction vs rule: tokens_of_elements.induct)
  case 1
  then show ?case by (simp add: lexes_Nil)
next
  case (2 v)
  then show ?case by (simp add: lexes_value)
next
  case (3 v w vs)
  have "lexes (stringify_element v @ '','' @ join '','' (map stringify_element (w # vs)))
          (tokens_of_value v @ [Comma] @ tokens_of_elements (w # vs))"
    using 3 by (intro lexes_append lexes_punctuation lexes_value) auto
  then show ?case by simp
qed

lemma foldr_cons_token: "foldr cons_token ts (Parsed us) = Parsed (ts @ us)"
  by (induction ts) auto

lemma tokenize_stringify_array:
  assumes "\<forall>v\<in>set vs. storable v"
  shows "tokenize (''['' @ join '','' (map stringify_element vs) @ '']'')
           = Parsed (LBracket # tokens_of_elements vs @ [RBracket])"
proof -
  have "lexes (''['' @ join '','' (map stringify_element vs) @ '']'')
          ([LBracket] @ tokens_of_elements vs @ [RBracket])"
    by (intro lexes_append lexes_punctuation lexes_elements[OF assms])
  then have "tokenize ((''['' @ join '','' (map stringify_element vs) @ '']'') @ [])
               = foldr cons_token ([LBracket] @ tokens_of_elements vs @ [RBracket]) (tokenize [])"
    unfolding lexes_def by blast
  then show ?thesis
    by (simp add: foldr_cons_token)
qed

lemma prim_of_token_of: "p \<noteq> Undefined \<Longrightarrow> prim_of_token (token_of p) = Some p"
  by (cases p) auto

lemma update_fresh: "k \<notin> fst ` set acc \<Longrightarrow> AList.update k p acc = acc @ [(k, p)]"
  by (induction acc) auto

lemma parse_members_tokens:
  "fs \<noteq> [] \<Longrightarrow> distinct (map fst (acc @ fs)) \<Longrightarrow> Undefined \<notin> snd ` set fs \<Longrightarrow>
     parse_members acc (tokens_of_members fs @ RBrace # rest) = Parsed (acc @ fs, rest)"
proof (induction fs arbitrary: acc rule: tokens_of_members.induct)
  case 1
  then show ?case by simp
next
  case (2 k p)
  then have "p \<noteq> Undefined" and "k \<notin> fst ` set acc" by auto
  then show ?case
    by (simp add: prim_of_token_of update_fresh)
next
  case (3 k p f fs)
  then have p: "p \<noteq> Undefined" and k: "k \<notin> fst ` set acc" by auto
  have "parse_members (acc @ [(k, p)]) (tokens_of_members (f # fs) @ RBrace # rest)
          = Parsed ((acc @ [(k, p)]) @ f # fs, rest)"
    using "3.prems" by (intro "3.IH") auto
  with p k show ?case
    by (simp add: prim_of_token_of update_fresh)
qed

lemma tokens_of_members_head:
  "fs \<noteq> [] \<Longrightarrow> \<exists>k ts. tokens_of_members fs = TString k # ts"
  by (cases fs rule: tokens_of_members.cases) auto

lemma parse_element_tokens:
  assumes "storable v"
  shows "parse_element (tokens_of_value v @ rest) = Parsed (v, rest)"
proof (cases v)
  case (Prim p)
  with assms show ?thesis
    by (cases p) auto
next
  case Fn
  with assms show ?thesis by simp
next
  case (Object fs)
  show ?thesis
  proof (cases "fs = []")
    case True
    with Object show ?thesis by simp
  next
    case False
    from tokens_of_members_head[OF False] obtain k ts
      where h: "tokens_of_members fs = TString k # ts"
      by blast
    from assms Object False
    have "parse_members [] (tokens_of_members fs @ RBrace # rest) = Parsed ([] @ fs, rest)"
      by (intro parse_members_tokens) auto
    then have "parse_members [] (TString k # ts @ RBrace # rest) = Parsed (fs, rest)"
      by (simp add: h)
    then show ?thesis
      by (simp add: Object h)
  qed
qed

lemma parse_elements_tokens:
  "vs \<noteq> [] \<Longrightarrow> \<forall>v\<in>set vs. storable v \<Longrightarrow>
     parse_elements (tokens_of_elements vs @ RBracket # rest) = Parsed (vs, rest)"
proof (induction vs rule: tokens_of_elements.induct)
  case 1
  then show ?case by simp
next
  case (2 v)
  then have "parse_element (tokens_of_value v @ RBracket # rest) = Parsed (v, RBracket # rest)"
    by (simp add: parse_element_tokens)
  then show ?case
    by (subst parse_elements.simps) simp
next
  case (3 v w vs)
  then have e: "parse_element (tokens_of_value v @ Comma # tokens_of_elements (w # vs) @ RBracket # rest)
                 = Parsed (v, Comma # tokens_of_elements (w # vs) @ RBracket # rest)"
    by (simp add: parse_element_tokens)
  from 3 have r: "parse_elements (tokens_of_elements (w # vs) @ RBracket # rest) = Parsed (w # vs, rest)"
    by simp
  show ?case
    by (subst parse_elements.simps) (simp add: e r)
qed

lemma token_of_not_bracket: "token_of p \<noteq> RBracket"
  by (cases p) auto

lemma tokens_of_value_head:
  "\<exists>t ts. tokens_of_value v = t # ts \<and> t \<noteq> RBracket"
  by (cases v rule: tokens_of_value.cases) (auto simp: token_of_not_bracket)

lemma tokens_of_elements_head:
  "vs \<noteq> [] \<Longrightarrow> \<exists>t ts. tokens_of_elements vs = t # ts \<and> t \<noteq> RBracket"
proof (cases vs rule: tokens_of_elements.cases)
  case 1
  then show "vs \<noteq> [] \<Longrightarrow> ?thesis" by simp
next
  case (2 v)
  with tokens_of_value_head[of v] show ?thesis by auto
next
  case (3 v w ws)
  with tokens_of_value_head[of v] show ?thesis by auto
qed

lemma parse_value_array:
  "t \<noteq> RBracket \<Longrightarrow>
     parse_value (LBracket # t # ts) =
       (case parse_elements (t # ts) of
          Parsed (vs, r) \<Rightarrow> finish (Array vs) r
        | SyntaxError \<Rightarrow> SyntaxError
        | Unmodelled \<Rightarrow> Unmodelled)"
  by (cases t) simp_all

lemma parse_value_tokens:
  assumes "\<forall>v\<in>set vs. storable v"
  shows "parse_value (LBracket # tokens_of_elements vs @ [RBracket]) = Parsed (Array vs)"
proof (cases "vs = []")
  case True
  then show ?thesis by (simp add: finish_def)
next
  case False
  from tokens_of_elements_head[OF False] obtain t ts
    where h: "tokens_of_elements vs = t # ts" "t \<noteq> RBracket"
    by blast
  from parse_elements_tokens[OF False assms, of "[]"]
  have "parse_elements (t # ts @ [RBracket]) = Parsed (vs, [])"
    by (simp add: h)
  then show ?thesis
    by (simp add: h parse_value_array finish_def)
qed

lemma JSON_roundtrip:
  assumes "\<forall>v\<in>set vs. storable v"
  shows "\<exists>t. JSON_stringify (Array vs) = Some t \<and> t \<noteq> [] \<and> JSON_parse t = Parsed (Array vs)"
proof -
  let ?t = "''['' @ join '','' (map stringify_element vs) @ '']''"
  have "JSON_stringify (Array vs) = Some ?t"
    by simp
  moreover have "?t \<noteq> []"
    by simp
  moreover have "JSON_parse ?t = Parsed (Array vs)"
    unfolding JSON_parse_def tokenize_stringify_array[OF assms]
    by (simp add: parse_value_tokens[OF assms])
  ultimately show ?thesis
    by blast
qed

text \<open>
  C7. When every record of the sequence is storable and \<open>saveTasks\<close> reports success,
  \<open>loadTasks\<close> on the store that \<open>saveTasks\<close> leaves returns the sequence: the same
  records with the same fields, in the same order.
\<close>

theorem save_then_load:
  assumes "\<forall>t\<in>set ts. storable t" and "fst (saveTasks (Array ts) st)"
  shows "loadTasks (snd (saveTasks (Array ts) st)) = Some ts"
proof -
  from JSON_roundtrip[OF assms(1)] obtain t
    where t: "JSON_stringify (Array ts) = Some t" "t \<noteq> []" "JSON_parse t = Parsed (Array ts)"
    by blast
  from assms(2) t(1)
  have "snd (saveTasks (Array ts) st) = st\<lparr>items := (items st)(STORAGE_KEY \<mapsto> t)\<rparr>"
    by (auto simp: saveTasks_def setItem_def split: if_splits)
  with t show ?thesis
    by (simp add: loadTasks_def getItem_def)
qed

theorem save_then_load_witness:
  "fst (saveTasks (Array mockTasks) empty_storage)
   \<and> loadTasks (snd (saveTasks (Array mockTasks) empty_storage)) = Some mockTasks"
proof -
  have s: "\<forall>t\<in>set mockTasks. storable t"
    by (simp add: mock_defs)
  have ok: "fst (saveTasks (Array mockTasks) empty_storage)"
    by code_simp
  from save_then_load[OF s ok] ok show ?thesis
    by simp
qed

end
